theory Spec2Isabelle
  imports Main "HOL-Library.Monad_Syntax" "HOL-Library.Sublist"
begin

section \<open>The values the script handles\<close>

text \<open>
  The script (\<^verbatim>\<open>src/js/script.js\<close>; \<^verbatim>\<open>src/unnamed/part_000\<close> is a variant of it that
  differs only in the markup of a card's image) reads a JSON feed and renders it. Its
  data is therefore whatever \<^verbatim>\<open>JSON.parse\<close> can return, plus \<^verbatim>\<open>undefined\<close>, which a read
  of a missing property gives.

  A string is a \<^typ>\<open>string\<close>: the bytes of its UTF-8 text. Every test the script makes on
  a character (a digit, a hyphen, the letters of \<^verbatim>\<open>embed\<close>, the identifier class of a
  video id) is a test on an ASCII character, which is one byte and occurs in no
  multi-byte sequence.

  A number is kept abstract. The script never computes with a number of the feed; it
  observes only whether the number is truthy and how it prints, so \<open>JNumber\<close> carries
  those two observations.
\<close>

datatype jsval =
    JUndefined
  | JNull
  | JBool bool
  | JNumber (number_truthy: bool) (number_text: string)
  | JString string
  | JArray "jsval list"
  | JObject "(string \<times> jsval) list"

text \<open>
  What the script can throw: its own \<^verbatim>\<open>new Error(message)\<close>, and the engine's
  \<^verbatim>\<open>TypeError\<close>s. The wording of an engine error is the engine's own, so the model records
  the kind of the error only.
\<close>

datatype type_error =
    CannotDestructure
  | CannotReadProperty
  | NotAFunction
  | CannotConvertToPrimitive

datatype exn = Error string | TypeError type_error

text \<open>\<^verbatim>\<open>typeof v\<close>.\<close>

fun typeof :: "jsval \<Rightarrow> string" where
  "typeof JUndefined = ''undefined''"
| "typeof JNull = ''object''"
| "typeof (JBool b) = ''boolean''"
| "typeof (JNumber t s) = ''number''"
| "typeof (JString s) = ''string''"
| "typeof (JArray xs) = ''object''"
| "typeof (JObject kvs) = ''object''"

text \<open>Truthiness (\<^verbatim>\<open>ToBoolean\<close>), as \<^verbatim>\<open>if (v)\<close>, \<^verbatim>\<open>!v\<close> and \<^verbatim>\<open>v || w\<close> use it.\<close>

fun truthy :: "jsval \<Rightarrow> bool" where
  "truthy JUndefined = False"
| "truthy JNull = False"
| "truthy (JBool b) = b"
| "truthy (JNumber t s) = t"
| "truthy (JString s) = (s \<noteq> [])"
| "truthy (JArray xs) = True"
| "truthy (JObject kvs) = True"

text \<open>\<^verbatim>\<open>a || b\<close>.\<close>

definition js_or :: "jsval \<Rightarrow> jsval \<Rightarrow> jsval" where
  "js_or a b = (if truthy a then a else b)"

fun nullish :: "jsval \<Rightarrow> bool" where
  "nullish JUndefined = True"
| "nullish JNull = True"
| "nullish v = False"

text \<open>
  \<^verbatim>\<open>item.name\<close> for the names the script reads (\<^verbatim>\<open>media_type\<close>, \<^verbatim>\<open>title\<close>, \<^verbatim>\<open>date\<close>,
  \<^verbatim>\<open>url\<close>, \<^verbatim>\<open>hdurl\<close>, \<^verbatim>\<open>thumbnail_url\<close>, \<^verbatim>\<open>explanation\<close>) on a value that is neither
  \<^verbatim>\<open>null\<close> nor \<^verbatim>\<open>undefined\<close>. No prototype has a property of one of these names, so the
  read gives the object's own property, or \<^verbatim>\<open>undefined\<close>. A read on \<^verbatim>\<open>null\<close> or
  \<^verbatim>\<open>undefined\<close> throws; the functions below test \<open>nullish\<close> where the script would
  reach such a read.
\<close>

fun get_prop :: "jsval \<Rightarrow> string \<Rightarrow> jsval" where
  "get_prop (JObject kvs) k = (case map_of kvs k of Some v \<Rightarrow> v | None \<Rightarrow> JUndefined)"
| "get_prop v k = JUndefined"

text \<open>\<^verbatim>\<open>parts.join(sep)\<close> on strings.\<close>

fun join :: "string \<Rightarrow> string list \<Rightarrow> string" where
  "join sep [] = []"
| "join sep [s] = s"
| "join sep (s # t # ss) = s @ sep @ join sep (t # ss)"

text \<open>The first error of a list of results, or all the values.\<close>

fun sequence :: "('e + 'a) list \<Rightarrow> 'e + 'a list" where
  "sequence [] = Inr []"
| "sequence (Inl e # rs) = Inl e"
| "sequence (Inr x # rs) = (case sequence rs of Inl e \<Rightarrow> Inl e | Inr xs \<Rightarrow> Inr (x # xs))"

text \<open>
  \<^verbatim>\<open>ToString\<close>, which a template literal applies to each \<^verbatim>\<open>${...}\<close>. An array prints as
  its elements joined by commas, \<^verbatim>\<open>null\<close> and \<^verbatim>\<open>undefined\<close> elements as nothing. An object
  of the feed prints as \<^verbatim>\<open>[object Object]\<close>, unless it has a property named \<^verbatim>\<open>toString\<close>
  of its own: a JSON value is never callable, so neither it nor \<^verbatim>\<open>valueOf\<close> yields a
  primitive, and the conversion throws.
\<close>

fun toString :: "jsval \<Rightarrow> exn + string" where
  "toString JUndefined = Inr ''undefined''"
| "toString JNull = Inr ''null''"
| "toString (JBool b) = Inr (if b then ''true'' else ''false'')"
| "toString (JNumber t s) = Inr s"
| "toString (JString s) = Inr s"
| "toString (JArray xs) =
     (case sequence (map (\<lambda>x. if nullish x then Inr [] else toString x) xs) of
        Inl e \<Rightarrow> Inl e
      | Inr parts \<Rightarrow> Inr (join '','' parts))"
| "toString (JObject kvs) =
     (if ''toString'' \<in> fst ` set kvs then Inl (TypeError CannotConvertToPrimitive)
      else Inr ''[object Object]'')"

section \<open>Strings and numbers\<close>

text \<open>\<^verbatim>\<open>s.includes(t)\<close>.\<close>

fun str_includes :: "string \<Rightarrow> string \<Rightarrow> bool" where
  "str_includes [] t = (t = [])"
| "str_includes (c # cs) t = (prefix t (c # cs) \<or> str_includes cs t)"

text \<open>The class \<^verbatim>\<open>\d\<close> and the value of a digit.\<close>

definition is_digit :: "char \<Rightarrow> bool" where
  "is_digit c \<longleftrightarrow> c \<in> set ''0123456789''"

definition digit_value :: "char \<Rightarrow> nat" where
  "digit_value c = of_char c - 48"

definition digit_char :: "nat \<Rightarrow> char" where
  "digit_char n = ''0123456789'' ! n"

text \<open>
  \<^verbatim>\<open>String(n)\<close> for an integer \<open>n\<close>: its decimal digits, with a minus sign below zero.
  (The engine prints an integer this way up to \<open>10^21\<close>; the script prints a day of two
  digits, an index into the item list and an HTTP status.)
\<close>

fun show_nat :: "nat \<Rightarrow> string" where
  "show_nat n = (if n < 10 then [digit_char n] else show_nat (n div 10) @ [digit_char (n mod 10)])"

declare show_nat.simps [simp del]

definition show_int :: "int \<Rightarrow> string" where
  "show_int k = (if k < 0 then ''-'' @ show_nat (nat (- k)) else show_nat (nat k))"

text \<open>
  The white space that \<^verbatim>\<open>parseInt\<close> skips: tab, line feed, vertical tab, form feed,
  carriage return, space, and the UTF-8 text of U+00A0, U+1680, U+2000 to U+200A, U+2028,
  U+2029, U+202F, U+205F, U+3000 and U+FEFF.
\<close>

definition white_space :: "string list" where
  "white_space =
     [[CHR 0x09], [CHR 0x0A], [CHR 0x0B], [CHR 0x0C], [CHR 0x0D], [CHR 0x20],
      [CHR 0xC2, CHR 0xA0],
      [CHR 0xE1, CHR 0x9A, CHR 0x80],
      [CHR 0xE2, CHR 0x80, CHR 0x80], [CHR 0xE2, CHR 0x80, CHR 0x81],
      [CHR 0xE2, CHR 0x80, CHR 0x82], [CHR 0xE2, CHR 0x80, CHR 0x83],
      [CHR 0xE2, CHR 0x80, CHR 0x84], [CHR 0xE2, CHR 0x80, CHR 0x85],
      [CHR 0xE2, CHR 0x80, CHR 0x86], [CHR 0xE2, CHR 0x80, CHR 0x87],
      [CHR 0xE2, CHR 0x80, CHR 0x88], [CHR 0xE2, CHR 0x80, CHR 0x89],
      [CHR 0xE2, CHR 0x80, CHR 0x8A],
      [CHR 0xE2, CHR 0x80, CHR 0xA8], [CHR 0xE2, CHR 0x80, CHR 0xA9],
      [CHR 0xE2, CHR 0x80, CHR 0xAF],
      [CHR 0xE2, CHR 0x81, CHR 0x9F],
      [CHR 0xE3, CHR 0x80, CHR 0x80],
      [CHR 0xEF, CHR 0xBB, CHR 0xBF]]"

definition leading_white_space :: "string \<Rightarrow> nat" where
  "leading_white_space s =
     (case find (\<lambda>w. prefix w s) white_space of None \<Rightarrow> 0 | Some w \<Rightarrow> length w)"

function trim_start :: "string \<Rightarrow> string" where
  "trim_start s =
     (if leading_white_space s = 0 \<or> s = [] then s
      else trim_start (drop (leading_white_space s) s))"
  by pat_completeness auto
termination
  by (relation "measure length") auto

declare trim_start.simps [simp del]

definition digits_value :: "string \<Rightarrow> nat" where
  "digits_value ds = foldl (\<lambda>a c. 10 * a + digit_value c) 0 ds"

text \<open>
  \<^verbatim>\<open>parseInt(s, 10)\<close>: skip white space, read a sign, read the longest run of digits;
  \<^verbatim>\<open>NaN\<close> (here \<open>None\<close>) when there is no digit. The result is the integer read; the
  engine rounds it to a double, which changes it only beyond \<open>2^53\<close>, and gives it the sign
  of \<^verbatim>\<open>-0\<close>, which prints and indexes as \<open>0\<close>.
\<close>

definition parseInt :: "string \<Rightarrow> int option" where
  "parseInt inputString =
     (let S = trim_start inputString;
          sign = (case S of c # r \<Rightarrow> if c = CHR ''-'' then - 1 else 1 | [] \<Rightarrow> (1::int));
          S' = (case S of c # r \<Rightarrow> if c = CHR ''-'' \<or> c = CHR ''+'' then r else S | [] \<Rightarrow> S);
          Z = takeWhile is_digit S'
      in if Z = [] then None else Some (sign * int (digits_value Z)))"

section \<open>formatDate\<close>

text \<open>
  The pattern \<^verbatim>\<open>/^(\d{4})-(\d{2})-(\d{2})$/\<close>, read from left to right: \<open>digits n\<close> is
  \<^verbatim>\<open>(\d{n})\<close>, giving the captured text and the rest; \<open>literal c\<close> is the character
  \<open>c\<close>; \<^verbatim>\<open>$\<close> (without the \<^verbatim>\<open>m\<close> flag) is the end of the input. The pattern has one
  way to match at most, so no backtracking is involved.
\<close>

definition digits :: "nat \<Rightarrow> string \<Rightarrow> (string \<times> string) option" where
  "digits n s =
     (if n \<le> length s \<and> list_all is_digit (take n s) then Some (take n s, drop n s) else None)"

definition literal :: "char \<Rightarrow> string \<Rightarrow> string option" where
  "literal c s = (case s of x # r \<Rightarrow> if x = c then Some r else None | [] \<Rightarrow> None)"

definition date_pattern :: "string \<Rightarrow> (string \<times> string \<times> string) option" where
  "date_pattern s =
     do {
       (y, r1) \<leftarrow> digits 4 s;
       r2 \<leftarrow> literal CHR ''-'' r1;
       (m, r3) \<leftarrow> digits 2 r2;
       r4 \<leftarrow> literal CHR ''-'' r3;
       (d, r5) \<leftarrow> digits 2 r4;
       if r5 = [] then Some (y, m, d) else None
     }"

text \<open>
  \<^verbatim>\<open>isoDate.match(pattern)\<close> as a method call: only a string has the method, and a call
  on anything else throws.
\<close>

fun match_date :: "jsval \<Rightarrow> exn + (string \<times> string \<times> string) option" where
  "match_date (JString s) = Inr (date_pattern s)"
| "match_date JUndefined = Inl (TypeError CannotReadProperty)"
| "match_date JNull = Inl (TypeError CannotReadProperty)"
| "match_date v = Inl (TypeError NotAFunction)"

definition months :: "string list" where
  "months = [''Jan'', ''Feb'', ''Mar'', ''Apr'', ''May'', ''Jun'',
             ''Jul'', ''Aug'', ''Sep'', ''Oct'', ''Nov'', ''Dec'']"

text \<open>
  \<^verbatim>\<open>months[Math.max(0, Math.min(11, parseInt(m, 10) - 1))]\<close>, printed in the template:
  \<^verbatim>\<open>NaN\<close> passes through \<^verbatim>\<open>Math.min\<close> and \<^verbatim>\<open>Math.max\<close> and indexes nothing, which
  prints as \<^verbatim>\<open>undefined\<close>.
\<close>

definition monthName :: "string \<Rightarrow> string" where
  "monthName m =
     (case parseInt m of
        None \<Rightarrow> ''undefined''
      | Some k \<Rightarrow> months ! nat (max 0 (min 11 (k - 1))))"

text \<open>\<^verbatim>\<open>String(parseInt(d, 10))\<close>.\<close>

definition day :: "string \<Rightarrow> string" where
  "day d = (case parseInt d of None \<Rightarrow> ''NaN'' | Some k \<Rightarrow> show_int k)"

definition formatDate :: "jsval \<Rightarrow> exn + string" where
  "formatDate isoDate =
     (if typeof isoDate \<noteq> ''string'' then Inr ''''
      else case match_date isoDate of
          Inl e \<Rightarrow> Inl e
        | Inr None \<Rightarrow> toString isoDate
        | Inr (Some (y, m, d)) \<Rightarrow> Inr (monthName m @ '' '' @ day d @ '', '' @ y))"

text \<open>
  The strings that match the pattern, position by position: ten characters, digits
  everywhere but at positions 4 and 7, where a hyphen stands.
\<close>

definition is_iso_date :: "string \<Rightarrow> bool" where
  "is_iso_date s \<longleftrightarrow>
     length s = 10 \<and> s ! 4 = CHR ''-'' \<and> s ! 7 = CHR ''-'' \<and>
     list_all (\<lambda>i. is_digit (s ! i)) [0, 1, 2, 3, 5, 6, 8, 9]"

section \<open>The page\<close>

text \<open>
  The state the script keeps and changes: the list \<^verbatim>\<open>apodItems\<close>, the markup last assigned
  to \<^verbatim>\<open>gallery.innerHTML\<close>, and the modal, which does not exist (\<^verbatim>\<open>modalOverlay\<close> is
  \<^verbatim>\<open>null\<close>) until \<^verbatim>\<open>ensureModal\<close> builds it. Of the modal the model keeps the markup
  assigned to the \<^verbatim>\<open>innerHTML\<close> of the element \<^verbatim>\<open>ensureModal\<close> builds with the id
  \<^verbatim>\<open>modalInner\<close>, and \<^verbatim>\<open>modalOverlay.style.display\<close>.

  \<^verbatim>\<open>openModal\<close> does not keep that element: it looks it up again, with
  \<^verbatim>\<open>document.getElementById('modalInner')\<close>, which gives the first element of the
  document that carries the id. The modal is appended at the end of the body, so any
  other element with this id comes first: one of the host page, or one of the gallery,
  where the titles of the feed are inserted as they are. The page therefore also keeps
  \<open>otherInner\<close>, the markup assigned to the \<^verbatim>\<open>innerHTML\<close> of such an element
  (\<open>None\<close> as long as nothing was assigned to one).
\<close>

record modal =
  inner :: string
  display :: string

record page =
  apodItems :: "jsval list"
  gallery :: string
  modalOverlay :: "modal option"
  otherInner :: "string option"

text \<open>
  A statement that throws passes its error on: \<open>and_then r f\<close> continues with the
  value of \<open>r\<close>, or stops at its error.
\<close>

definition and_then :: "exn + 'a \<Rightarrow> ('a \<Rightarrow> exn + 'b) \<Rightarrow> exn + 'b" where
  "and_then r f = (case r of Inl e \<Rightarrow> Inl e | Inr x \<Rightarrow> f x)"

text \<open>
  The template literals keep their line breaks and tabs: \<open>indent n\<close> is a line feed
  and \<open>n\<close> tabs.
\<close>

definition indent :: "nat \<Rightarrow> string" where
  "indent n = CHR 0x0A # replicate n (CHR 0x09)"

definition loading_html :: string where
  \<open>loading_html =
     indent 2 @ ''<div class="placeholder">'' @
     indent 3 @ ''<div class="placeholder-icon">'' @ [CHR 0xF0, CHR 0x9F, CHR 0x94, CHR 0x84] @ ''</div>'' @
     indent 3 @ ''<p>Loading space photos'' @ [CHR 0xE2, CHR 0x80, CHR 0xA6] @ ''</p>'' @
     indent 2 @ ''</div>'' @
     indent 1\<close>

definition showLoading :: "page \<Rightarrow> page" where
  "showLoading p = p\<lparr>gallery := loading_html\<rparr>"

section \<open>renderGallery\<close>

text \<open>
  The two files differ in one place: \<^verbatim>\<open>script.js\<close> wraps the image of a card in a
  \<^verbatim>\<open>div\<close> of class \<^verbatim>\<open>image-wrapper\<close>, \<^verbatim>\<open>part_000\<close> does not.
\<close>

datatype variant = Script | Part000

definition image_visual :: "variant \<Rightarrow> string \<Rightarrow> string \<Rightarrow> string" where
  \<open>image_visual v imgSrc title =
     (case v of
        Script \<Rightarrow>
          indent 4 @ ''<div class="image-wrapper">'' @
          indent 5 @ ''<img src="'' @ imgSrc @ ''" alt="'' @ title @ ''" loading="lazy" />'' @
          indent 4 @ ''</div>'' @
          indent 3
      | Part000 \<Rightarrow>
          indent 4 @ ''<img src="'' @ imgSrc @ ''" alt="'' @ title @ ''" loading="lazy" />'' @
          indent 3)\<close>

definition thumbnail_visual :: "variant \<Rightarrow> string \<Rightarrow> string \<Rightarrow> string" where
  \<open>thumbnail_visual v thumb title =
     (case v of
        Script \<Rightarrow>
          indent 5 @ ''<div class="image-wrapper">'' @
          indent 6 @ ''<img src="'' @ thumb @ ''" alt="'' @ title @ '' (video)" loading="lazy" />'' @
          indent 5 @ ''</div>'' @
          indent 4
      | Part000 \<Rightarrow>
          indent 5 @ ''<img src="'' @ thumb @ ''" alt="'' @ title @ '' (video)" loading="lazy" />'' @
          indent 4)\<close>

definition video_placeholder :: string where
  \<open>video_placeholder =
     indent 5 @ ''<div class="video-placeholder">'' @
     indent 6 @ ''<p>'' @ [CHR 0xF0, CHR 0x9F, CHR 0x8E, CHR 0xAC] @ '' Video</p>'' @
     indent 6 @ ''<p><small>Click to open</small></p>'' @
     indent 5 @ ''</div>'' @
     indent 4\<close>

definition unsupported_placeholder :: string where
  \<open>unsupported_placeholder =
     indent 4 @ ''<div class="video-placeholder">'' @
     indent 5 @ ''<p>Unsupported media</p>'' @
     indent 4 @ ''</div>'' @
     indent 3\<close>

text \<open>The part of the callback that computes \<^verbatim>\<open>visualHTML\<close>.\<close>

definition visualHTML :: "variant \<Rightarrow> jsval \<Rightarrow> exn + string" where
  "visualHTML v item =
     (let media_type = get_prop item ''media_type'';
          title = get_prop item ''title''
      in if media_type = JString ''image'' then
           let imgSrc = js_or (js_or (get_prop item ''url'') (get_prop item ''hdurl'')) (JString '''')
           in and_then (toString imgSrc) (\<lambda>src.
              and_then (toString title) (\<lambda>t.
              Inr (image_visual v src t)))
         else if media_type = JString ''video'' then
           let thumb = get_prop item ''thumbnail_url''
           in if truthy thumb then
                and_then (toString thumb) (\<lambda>th.
                and_then (toString title) (\<lambda>t.
                Inr (thumbnail_visual v th t)))
              else Inr video_placeholder
         else Inr unsupported_placeholder)"

definition card_html :: "string \<Rightarrow> string \<Rightarrow> string \<Rightarrow> string \<Rightarrow> string" where
  \<open>card_html index title date visual =
     indent 3 @ ''<div class="gallery-item" data-index="'' @ index @
       ''" tabindex="0" aria-label="Open details for '' @ title @ '' ('' @ date @ '')">'' @
     indent 4 @ visual @
     indent 4 @ ''<p><strong>'' @ title @ ''</strong></p>'' @
     indent 4 @ ''<p>'' @ date @ ''</p>'' @
     indent 3 @ ''</div>'' @
     indent 2\<close>

text \<open>
  The callback of \<^verbatim>\<open>items.map\<close>. Destructuring \<^verbatim>\<open>null\<close> (or \<^verbatim>\<open>undefined\<close>) throws;
  any other value can be destructured.
\<close>

definition renderCard :: "variant \<Rightarrow> jsval \<Rightarrow> nat \<Rightarrow> exn + string" where
  "renderCard v item index =
     (if nullish item then Inl (TypeError CannotDestructure)
      else
        and_then (visualHTML v item) (\<lambda>visual.
        and_then (toString (get_prop item ''title'')) (\<lambda>t.
        and_then (formatDate (get_prop item ''date'')) (\<lambda>d.
        Inr (card_html (show_nat index) t d visual)))))"

text \<open>\<^verbatim>\<open>items.map((item, index) => ...)\<close>: in order, stopping at the first error.\<close>

definition renderCards :: "variant \<Rightarrow> jsval list \<Rightarrow> exn + string list" where
  "renderCards v items =
     sequence (map (\<lambda>(item, index). renderCard v item index) (zip items [0..<length items]))"

definition renderGallery :: "variant \<Rightarrow> jsval list \<Rightarrow> page \<Rightarrow> exn + page" where
  "renderGallery v items p =
     (case renderCards v items of
        Inl e \<Rightarrow> Inl e
      | Inr cards \<Rightarrow> Inr (p\<lparr>gallery := join '''' cards\<rparr>))"

section \<open>openModal\<close>

text \<open>
  \<^verbatim>\<open>ensureModal\<close> builds the modal once, hidden and empty. (Its listeners only close the
  modal; they are not part of this model.)
\<close>

definition ensureModal :: "page \<Rightarrow> page" where
  "ensureModal p =
     (case modalOverlay p of
        Some m \<Rightarrow> p
      | None \<Rightarrow> p\<lparr>modalOverlay := Some \<lparr>inner = '''', display = ''none''\<rparr>\<rparr>)"

text \<open>
  The pattern \<^verbatim>\<open>/embed\/([a-zA-Z0-9_-]+)/\<close>. It is not anchored: the engine tries each
  position from the left, and at a position the pattern matches when \<^verbatim>\<open>embed/\<close> stands
  there, followed by at least one character of the class; the group takes the longest
  run of them.
\<close>

definition is_id_char :: "char \<Rightarrow> bool" where
  "is_id_char c \<longleftrightarrow>
     c \<in> set ''abcdefghijklmnopqrstuvwxyzABCDEFGHIJKLMNOPQRSTUVWXYZ0123456789_-''"

definition embed_here :: "string \<Rightarrow> string option" where
  "embed_here s =
     (if prefix ''embed/'' s \<and> takeWhile is_id_char (drop 6 s) \<noteq> []
      then Some (takeWhile is_id_char (drop 6 s)) else None)"

fun embed_pattern :: "string \<Rightarrow> string option" where
  "embed_pattern [] = None"
| "embed_pattern (c # cs) =
     (case embed_here (c # cs) of Some ident \<Rightarrow> Some ident | None \<Rightarrow> embed_pattern cs)"

text \<open>
  \<^verbatim>\<open>item.url.includes('embed')\<close> as a method call. A string has the method, and so has
  an array (which looks for an element equal to \<^verbatim>\<open>'embed'\<close>); on anything else the
  call throws.
\<close>

fun url_includes_embed :: "jsval \<Rightarrow> exn + bool" where
  "url_includes_embed (JString s) = Inr (str_includes s ''embed'')"
| "url_includes_embed (JArray xs) = Inr (JString ''embed'' \<in> set xs)"
| "url_includes_embed JUndefined = Inl (TypeError CannotReadProperty)"
| "url_includes_embed JNull = Inl (TypeError CannotReadProperty)"
| "url_includes_embed v = Inl (TypeError NotAFunction)"

text \<open>
  \<^verbatim>\<open>item.url.match(/embed\/([a-zA-Z0-9_-]+)/)?.[1]\<close>: the group of the match, or
  \<^verbatim>\<open>undefined\<close> when there is none. Only a string has \<^verbatim>\<open>match\<close>.
\<close>

fun url_video_id :: "jsval \<Rightarrow> exn + jsval" where
  "url_video_id (JString s) =
     Inr (case embed_pattern s of None \<Rightarrow> JUndefined | Some ident \<Rightarrow> JString ident)"
| "url_video_id JUndefined = Inl (TypeError CannotReadProperty)"
| "url_video_id JNull = Inl (TypeError CannotReadProperty)"
| "url_video_id v = Inl (TypeError NotAFunction)"

definition modal_image :: "string \<Rightarrow> string \<Rightarrow> string" where
  \<open>modal_image bigSrc title = ''<img src="'' @ bigSrc @ ''" alt="'' @ title @ ''" />''\<close>

definition video_embed :: "string \<Rightarrow> string \<Rightarrow> string \<Rightarrow> string" where
  \<open>video_embed url title watchUrl =
     indent 4 @ ''<div class="video-embed">'' @
     indent 5 @ ''<iframe src="'' @ url @ ''" title="'' @ title @
       ''" frameborder="0" allowfullscreen></iframe>'' @
     indent 4 @ ''</div>'' @
     indent 4 @ ''<p class="video-fallback">'' @
     indent 5 @ ''<small>If the video doesn't load, <a href="'' @ watchUrl @
       ''" target="_blank" rel="noopener">watch it on YouTube</a></small>'' @
     indent 4 @ ''</p>'' @
     indent 3\<close>

definition video_link :: "string \<Rightarrow> string" where
  \<open>video_link url =
     indent 4 @ ''<p>'' @
     indent 5 @ ''This is a video. Watch here:'' @
     indent 5 @ ''<a href="'' @ url @ ''" target="_blank" rel="noopener">'' @ url @ ''</a>'' @
     indent 4 @ ''</p>'' @
     indent 3\<close>

text \<open>
  The part of \<^verbatim>\<open>openModal\<close> that computes \<^verbatim>\<open>mediaHTML\<close>, given the \<^verbatim>\<open>title\<close> computed
  before it.
\<close>

definition mediaHTML :: "jsval \<Rightarrow> jsval \<Rightarrow> exn + string" where
  "mediaHTML item title =
     (if get_prop item ''media_type'' = JString ''image'' then
        let bigSrc = js_or (js_or (get_prop item ''hdurl'') (get_prop item ''url'')) (JString '''')
        in and_then (toString bigSrc) (\<lambda>src.
           and_then (toString title) (\<lambda>t.
           Inr (modal_image src t)))
      else if get_prop item ''media_type'' = JString ''video'' then
        let url = get_prop item ''url''
        in and_then (if truthy url then url_includes_embed url else Inr False) (\<lambda>embed.
           if embed then
             and_then (url_video_id url) (\<lambda>videoId.
             and_then (if truthy videoId
                       then and_then (toString videoId) (\<lambda>i.
                            Inr (''https://www.youtube.com/watch?v='' @ i))
                       else toString url) (\<lambda>watchUrl.
             and_then (toString url) (\<lambda>u.
             and_then (toString title) (\<lambda>t.
             Inr (video_embed u t watchUrl)))))
           else if truthy url then
             and_then (toString url) (\<lambda>u. Inr (video_link u))
           else Inr ''<p>Video unavailable.</p>'')
      else Inr ''<p>Unsupported media type.</p>'')"

definition modal_html :: "string \<Rightarrow> string \<Rightarrow> string \<Rightarrow> string \<Rightarrow> string" where
  \<open>modal_html title date media explanation =
     indent 2 @ ''<h2>'' @ title @ ''</h2>'' @
     indent 2 @ ''<p class="modal-date">'' @ date @ ''</p>'' @
     indent 2 @ ''<div class="modal-media">'' @ media @ ''</div>'' @
     indent 2 @ ''<p class="modal-explanation">'' @ explanation @ ''</p>'' @
     indent 1\<close>

text \<open>
  The markup \<^verbatim>\<open>openModal\<close> assigns to \<^verbatim>\<open>inner.innerHTML\<close>. The first read,
  \<^verbatim>\<open>item.title\<close>, throws on \<^verbatim>\<open>null\<close> and \<^verbatim>\<open>undefined\<close>.
\<close>

definition modalInner :: "jsval \<Rightarrow> exn + string" where
  "modalInner item =
     (if nullish item then Inl (TypeError CannotReadProperty)
      else
        let title = js_or (get_prop item ''title'') (JString ''Untitled'')
        in and_then (formatDate (js_or (get_prop item ''date'') (JString ''''))) (\<lambda>date.
           let explanation = js_or (get_prop item ''explanation'') (JString '''')
           in and_then (mediaHTML item title) (\<lambda>media.
              and_then (toString title) (\<lambda>t.
              and_then (toString explanation) (\<lambda>e.
              Inr (modal_html t date media e))))))"

text \<open>
  What \<^verbatim>\<open>document.getElementById('modalInner')\<close> gives once the modal is built: the
  element of the modal, or another element that carries the id and stands before it.
  Which of the two is the browser's answer, an input of the model.
\<close>

datatype element = OwnInner | OtherElement

text \<open>
  \<^verbatim>\<open>inner.innerHTML = html\<close> for the element found, and
  \<^verbatim>\<open>modalOverlay.style.display = d\<close>. Both run after \<^verbatim>\<open>ensureModal\<close>, on a page that
  has its modal.
\<close>

definition set_innerHTML :: "element \<Rightarrow> string \<Rightarrow> page \<Rightarrow> page" where
  "set_innerHTML found html p =
     (case found of
        OwnInner \<Rightarrow> p\<lparr>modalOverlay := map_option (\<lambda>m. m\<lparr>inner := html\<rparr>) (modalOverlay p)\<rparr>
      | OtherElement \<Rightarrow> p\<lparr>otherInner := Some html\<rparr>)"

definition set_display :: "string \<Rightarrow> page \<Rightarrow> page" where
  "set_display d p =
     p\<lparr>modalOverlay := map_option (\<lambda>m. m\<lparr>display := d\<rparr>) (modalOverlay p)\<rparr>"

text \<open>
  \<^verbatim>\<open>openModal(item)\<close>, with the element the lookup finds: the page afterwards, and the
  error when it throws. The modal has been built by then in either case.
\<close>

definition openModal :: "page \<Rightarrow> element \<Rightarrow> jsval \<Rightarrow> exn option \<times> page" where
  "openModal p found item =
     (let p1 = ensureModal p
      in case modalInner item of
           Inl e \<Rightarrow> (Some e, p1)
         | Inr html \<Rightarrow> (None, set_display ''flex'' (set_innerHTML found html p1)))"

section \<open>fetchAndRender\<close>

text \<open>
  What \<^verbatim>\<open>fetch\<close> and \<^verbatim>\<open>res.json()\<close> give is the environment's: the request is rejected
  with an error of some message, or it yields a response with its \<^verbatim>\<open>ok\<close> flag, its
  \<^verbatim>\<open>status\<close> and a body that parses to a value or fails to parse with some message.
\<close>

record response =
  ok :: bool
  status :: nat
  json :: "string + jsval"

datatype fetched = Rejected string | Resolved response

definition error_html :: "string \<Rightarrow> string" where
  \<open>error_html message =
     indent 3 @ ''<div class="placeholder">'' @
     indent 4 @ ''<div class="placeholder-icon">'' @
       [CHR 0xE2, CHR 0x9A, CHR 0xA0, CHR 0xEF, CHR 0xB8, CHR 0x8F] @ ''</div>'' @
     indent 4 @ ''<p>Sorry, we couldn'' @ [CHR 0xE2, CHR 0x80, CHR 0x99] @
       ''t load space photos. Please try again.</p>'' @
     indent 4 @ ''<p><small>'' @ message @ ''</small></p>'' @
     indent 3 @ ''</div>'' @
     indent 2\<close>

text \<open>
  \<^verbatim>\<open>err.message\<close>. The message of an engine error is the engine's wording, a parameter
  \<open>wording\<close> of the model.
\<close>

fun message :: "(type_error \<Rightarrow> string) \<Rightarrow> exn \<Rightarrow> string" where
  "message wording (Error m) = m"
| "message wording (TypeError k) = wording k"

text \<open>
  The \<^verbatim>\<open>try\<close> block: the page it leaves, and the error it throws, if any. The list is
  assigned before \<^verbatim>\<open>renderGallery\<close> runs, so an error of \<^verbatim>\<open>renderGallery\<close> leaves the
  new list in place. The model runs a call to its end: no other listener runs while the
  call waits for the response or for its body.
\<close>

definition fetch_try :: "variant \<Rightarrow> fetched \<Rightarrow> page \<Rightarrow> exn option \<times> page" where
  "fetch_try v result p =
     (case result of
        Rejected m \<Rightarrow> (Some (Error m), p)
      | Resolved res \<Rightarrow>
          if \<not> ok res then (Some (Error (''Network error: '' @ show_nat (status res))), p)
          else case json res of
              Inl m \<Rightarrow> (Some (Error m), p)
            | Inr data \<Rightarrow>
                (case data of
                   JArray xs \<Rightarrow>
                     (let p1 = p\<lparr>apodItems := xs\<rparr>
                      in case renderGallery v (apodItems p1) p1 of
                           Inl e \<Rightarrow> (Some e, p1)
                         | Inr p2 \<Rightarrow> (None, p2))
                 | _ \<Rightarrow> (Some (Error ''Unexpected data format (expected an array).''), p)))"

definition fetchAndRender ::
    "(type_error \<Rightarrow> string) \<Rightarrow> variant \<Rightarrow> fetched \<Rightarrow> page \<Rightarrow> page" where
  "fetchAndRender wording v result p =
     (case fetch_try v result (showLoading p) of
        (None, p') \<Rightarrow> p'
      | (Some err, p') \<Rightarrow> p'\<lparr>gallery := error_html (message wording err)\<rparr>)"

section \<open>The listeners of the gallery\<close>

text \<open>
  An event reaches a listener with \<^verbatim>\<open>e.target.closest('.gallery-item')\<close>, which is
  \<^verbatim>\<open>null\<close> (\<open>None\<close>) or a card; of a card the listener reads
  \<^verbatim>\<open>getAttribute('data-index')\<close>, which is \<^verbatim>\<open>null\<close> (\<open>None\<close>) or a string.
  \<^verbatim>\<open>parseInt\<close> converts its argument to a string first, \<^verbatim>\<open>null\<close> to \<^verbatim>\<open>'null'\<close>.
  A listener that opens the modal does so on the document as it is then, with the
  element the lookup of \<^verbatim>\<open>openModal\<close> finds in it.
\<close>

definition attribute_text :: "string option \<Rightarrow> string" where
  "attribute_text a = (case a of None \<Rightarrow> ''null'' | Some s \<Rightarrow> s)"

text \<open>
  \<^verbatim>\<open>apodItems[index]\<close>: the element at an index within the list, \<^verbatim>\<open>undefined\<close> for
  \<^verbatim>\<open>NaN\<close> and for any other number.
\<close>

definition item_at :: "jsval list \<Rightarrow> int option \<Rightarrow> jsval" where
  "item_at items index =
     (case index of
        None \<Rightarrow> JUndefined
      | Some k \<Rightarrow> if 0 \<le> k \<and> k < int (length items) then items ! nat k else JUndefined)"

definition onGalleryClick ::
    "page \<Rightarrow> element \<Rightarrow> string option option \<Rightarrow> exn option \<times> page" where
  "onGalleryClick p found closest =
     (case closest of
        None \<Rightarrow> (None, p)
      | Some attr \<Rightarrow>
          let index = parseInt (attribute_text attr);
              item = item_at (apodItems p) index
          in if truthy item then openModal p found item else (None, p))"

definition onGalleryKeydown ::
    "page \<Rightarrow> element \<Rightarrow> string \<Rightarrow> string option option \<Rightarrow> exn option \<times> page" where
  "onGalleryKeydown p found key closest =
     (if key \<noteq> ''Enter'' then (None, p)
      else case closest of
          None \<Rightarrow> (None, p)
        | Some attr \<Rightarrow>
            let index = parseInt (attribute_text attr);
                item = item_at (apodItems p) index
            in if truthy item then openModal p found item else (None, p))"


section \<open>Properties of formatDate\<close>

subsection \<open>Digits and numbers of two digits\<close>

lemma is_digit_cases:
  "is_digit c \<longleftrightarrow> c = CHR ''0'' \<or> c = CHR ''1'' \<or> c = CHR ''2'' \<or> c = CHR ''3'' \<or> c = CHR ''4'' \<or>
     c = CHR ''5'' \<or> c = CHR ''6'' \<or> c = CHR ''7'' \<or> c = CHR ''8'' \<or> c = CHR ''9''"
  by (auto simp: is_digit_def)

lemma digit_value_less: "is_digit c \<Longrightarrow> digit_value c < 10"
  by (auto simp: is_digit_cases digit_value_def)

lemma digit_char_value: "is_digit c \<Longrightarrow> digit_char (digit_value c) = c"
  by (auto simp: is_digit_cases digit_value_def digit_char_def)

lemma less_ten: "(n::nat) < 10 \<Longrightarrow> n \<in> {0, 1, 2, 3, 4, 5, 6, 7, 8, 9}"
  by auto

lemma digit_value_char: "n < 10 \<Longrightarrow> digit_value (digit_char n) = n"
  by (drule less_ten) (auto simp: digit_value_def digit_char_def)

lemma is_digit_char: "n < 10 \<Longrightarrow> is_digit (digit_char n)"
proof -
  assume "n < 10"
  then have "n \<in> {0,1,2,3,4,5,6,7,8,9}" by auto
  then show ?thesis by (auto simp: is_digit_def digit_char_def)
qed

lemma white_space_heads: "list_all (\<lambda>w. w \<noteq> [] \<and> \<not> is_digit (hd w)) white_space"
  by (simp add: white_space_def is_digit_def)

lemma leading_white_space_digit:
  assumes "is_digit c"
  shows "leading_white_space (c # cs) = 0"
proof -
  have "\<not> prefix w (c # cs)" if "w \<in> set white_space" for w
  proof -
    from that white_space_heads have "w \<noteq> []" and "\<not> is_digit (hd w)"
      by (simp_all add: list_all_iff)
    with assms show ?thesis
      by (cases w) auto
  qed
  then have "find (\<lambda>w. prefix w (c # cs)) white_space = None"
    by (simp add: find_None_iff)
  then show ?thesis
    by (simp add: leading_white_space_def)
qed

lemma trim_start_digit: "is_digit c \<Longrightarrow> trim_start (c # cs) = c # cs"
  by (simp add: trim_start.simps leading_white_space_digit)

lemma parseInt_two_digits:
  "is_digit a \<Longrightarrow> is_digit b \<Longrightarrow> parseInt [a, b] = Some (int (10 * digit_value a + digit_value b))"
  by (auto simp: parseInt_def trim_start_digit digits_value_def Let_def is_digit_cases)

lemma show_nat_two_digits:
  "x < 10 \<Longrightarrow> y < 10 \<Longrightarrow> show_nat (10 * x + y) = (if x = 0 then [digit_char y] else [digit_char x, digit_char y])"
  by (subst show_nat.simps, subst show_nat.simps) auto

subsection \<open>The date pattern\<close>

lemma length_two:
  assumes "length s = 2" obtains c0 c1 where "s = [c0, c1]"
proof -
  from assms have "length s = Suc (Suc 0)" by simp
  then show ?thesis using that by (auto simp: length_Suc_conv)
qed

lemma length_four:
  assumes "length s = 4" obtains c0 c1 c2 c3 where "s = [c0, c1, c2, c3]"
proof -
  from assms have "length s = Suc (Suc (Suc (Suc 0)))" by simp
  then show ?thesis using that by (auto simp: length_Suc_conv)
qed

lemma length_ten:
  assumes "length s = 10"
  obtains c0 c1 c2 c3 c4 c5 c6 c7 c8 c9 where "s = [c0, c1, c2, c3, c4, c5, c6, c7, c8, c9]"
proof -
  from assms have "length s = Suc (Suc (Suc (Suc (Suc (Suc (Suc (Suc (Suc (Suc 0)))))))))" by simp
  then show ?thesis using that by (auto simp: length_Suc_conv)
qed

lemma date_pattern_iso:
  "is_iso_date s \<Longrightarrow> date_pattern s = Some (take 4 s, take 2 (drop 5 s), drop 8 s)"
  by (erule conjE [OF is_iso_date_def [THEN iffD1]], erule length_ten)
     (simp add: date_pattern_def digits_def literal_def)

lemma digits_Some:
  "digits n s = Some (a, r) \<Longrightarrow> s = a @ r \<and> length a = n \<and> list_all is_digit a"
  by (auto simp: digits_def split: if_splits)

lemma literal_Some: "literal c s = Some r \<Longrightarrow> s = c # r"
  by (auto simp: literal_def split: list.splits if_splits)

lemma date_pattern_Some:
  assumes "date_pattern s = Some (y, m, d)"
  shows "s = y @ ''-'' @ m @ ''-'' @ d \<and> length y = 4 \<and> length m = 2 \<and> length d = 2 \<and>
         list_all is_digit y \<and> list_all is_digit m \<and> list_all is_digit d"
proof -
  from assms obtain r1 r2 r3 r4 r5 where
    1: "digits 4 s = Some (y, r1)" and 2: "literal CHR ''-'' r1 = Some r2" and
    3: "digits 2 r2 = Some (m, r3)" and 4: "literal CHR ''-'' r3 = Some r4" and
    5: "digits 2 r4 = Some (d, r5)" and 6: "r5 = []"
    by (auto simp: date_pattern_def split: Option.bind_splits if_splits)
  from digits_Some [OF 1] literal_Some [OF 2] digits_Some [OF 3] literal_Some [OF 4]
    digits_Some [OF 5] 6
  show ?thesis by simp
qed

lemma date_pattern_is_iso:
  assumes "date_pattern s = Some (y, m, d)"
  shows "is_iso_date s"
proof -
  from date_pattern_Some [OF assms] obtain y0 y1 y2 y3 m0 m1 d0 d1 where
    "y = [y0, y1, y2, y3]" "m = [m0, m1]" "d = [d0, d1]"
    by (metis length_two length_four)
  with date_pattern_Some [OF assms] show ?thesis
    by (simp add: is_iso_date_def)
qed

lemma date_pattern_not_iso: "\<not> is_iso_date s \<Longrightarrow> date_pattern s = None"
  using date_pattern_is_iso by (cases "date_pattern s") auto

subsection \<open>The month, the day and the year\<close>

lemma monthName_two_digits:
  "is_digit a \<Longrightarrow> is_digit b \<Longrightarrow>
   monthName [a, b] = months ! nat (max 0 (min 11 (int (10 * digit_value a + digit_value b) - 1)))"
  by (simp add: monthName_def parseInt_two_digits)

lemma show_int_nat: "show_int (int n) = show_nat n"
  by (simp add: show_int_def)

lemma digit_value_zero: "is_digit c \<Longrightarrow> digit_value c = 0 \<longleftrightarrow> c = CHR ''0''"
  by (auto simp: is_digit_cases digit_value_def)

lemma day_two_digits:
  assumes "is_digit a" "is_digit b"
  shows "day [a, b] = (if a = CHR ''0'' then [b] else [a, b])"
proof -
  have "day [a, b] = show_int (int (10 * digit_value a + digit_value b))"
    by (simp only: day_def parseInt_two_digits [OF assms] option.case)
  also have "\<dots> = show_nat (10 * digit_value a + digit_value b)"
    by (rule show_int_nat)
  also have "\<dots> = (if digit_value a = 0 then [digit_char (digit_value b)]
                     else [digit_char (digit_value a), digit_char (digit_value b)])"
    using assms by (simp add: show_nat_two_digits digit_value_less)
  also have "\<dots> = (if a = CHR ''0'' then [b] else [a, b])"
    using assms by (simp add: digit_char_value digit_value_zero)
  finally show ?thesis .
qed

lemma formatDate_iso:
  assumes "is_iso_date s"
  shows "formatDate (JString s) =
           Inr (monthName [s ! 5, s ! 6] @ '' '' @ day [s ! 8, s ! 9] @ '', '' @ take 4 s)"
proof -
  from assms have "length s = 10" by (simp add: is_iso_date_def)
  then obtain c0 c1 c2 c3 c4 c5 c6 c7 c8 c9 where "s = [c0, c1, c2, c3, c4, c5, c6, c7, c8, c9]"
    by (rule length_ten)
  with date_pattern_iso [OF assms] show ?thesis
    by (simp add: formatDate_def)
qed

lemma iso_date_digits:
  "is_iso_date s \<Longrightarrow> is_digit (s ! 5) \<and> is_digit (s ! 6) \<and> is_digit (s ! 8) \<and> is_digit (s ! 9)"
  by (simp add: is_iso_date_def)

text \<open>
  C1. For every string of the shape \<^verbatim>\<open>YYYY-MM-DD\<close>, \<open>formatDate\<close> returns the month
  abbreviation, a space, the day, a comma and a space, and the year. The abbreviation is
  the entry of the table of twelve names at the index \<open>month - 1\<close> clamped into
  \<open>0..11\<close>, so month \<open>00\<close> gives \<^verbatim>\<open>Jan\<close> and every month above \<open>12\<close> gives \<^verbatim>\<open>Dec\<close>;
  the day is printed without a leading zero; the year is the first four characters.
\<close>

theorem formatDate_valid:
  assumes "is_iso_date s"
  shows "formatDate (JString s) =
           Inr (months ! nat (max 0 (min 11 (int (10 * digit_value (s ! 5) + digit_value (s ! 6)) - 1)))
                @ '' '' @ (if s ! 8 = CHR ''0'' then [s ! 9] else [s ! 8, s ! 9])
                @ '', '' @ take 4 s)"
  using iso_date_digits [OF assms]
  by (simp add: formatDate_iso [OF assms] monthName_two_digits day_two_digits)

theorem formatDate_valid_witness:
  "is_iso_date ''2025-10-27'' \<and> formatDate (JString ''2025-10-27'') = Inr ''Oct 27, 2025'' \<and>
   is_iso_date ''2025-01-05'' \<and> formatDate (JString ''2025-01-05'') = Inr ''Jan 5, 2025''"
proof -
  have a: "is_iso_date ''2025-10-27''" and b: "is_iso_date ''2025-01-05''"
    by (simp_all add: is_iso_date_def is_digit_def)
  show ?thesis
    using a b formatDate_valid [OF a] formatDate_valid [OF b]
    by (simp add: months_def digit_value_def)
qed

text \<open>
  C2. \<open>formatDate\<close> never throws: it returns the empty string for every value that is not
  a string, and returns a string that is not of the shape \<^verbatim>\<open>YYYY-MM-DD\<close> unchanged.
\<close>

theorem formatDate_never_fails:
  "((\<forall>t. v \<noteq> JString t) \<longrightarrow> formatDate v = Inr []) \<and>
   (\<not> is_iso_date s \<longrightarrow> formatDate (JString s) = Inr s) \<and>
   (\<exists>r. formatDate v = Inr r)"
proof (intro conjI impI)
  assume "\<forall>t. v \<noteq> JString t"
  then show "formatDate v = Inr []"
    by (cases v) (simp_all add: formatDate_def)
next
  assume "\<not> is_iso_date s"
  then show "formatDate (JString s) = Inr s"
    by (simp add: formatDate_def date_pattern_not_iso)
next
  show "\<exists>r. formatDate v = Inr r"
  proof (cases v)
    case (JString t)
    then show ?thesis
      by (cases "date_pattern t") (auto simp: formatDate_def)
  qed (simp_all add: formatDate_def)
qed

theorem formatDate_never_fails_witness:
  "(\<forall>t. JNull \<noteq> JString t) \<and> formatDate JNull = Inr [] \<and>
   \<not> is_iso_date ''2025/10/27'' \<and> formatDate (JString ''2025/10/27'') = Inr ''2025/10/27''"
  using formatDate_never_fails [of JNull "''2025/10/27''"]
  by (simp add: is_iso_date_def)

text \<open>
  C9. For every string of the shape \<^verbatim>\<open>YYYY-MM-DD\<close>, the result of \<open>formatDate\<close> ends with
  a comma, a space and the four characters of the year as they stand in the input,
  leading zeros included.
\<close>

theorem formatDate_year_verbatim:
  assumes "is_iso_date s"
  shows "\<exists>r. formatDate (JString s) = Inr r \<and> suffix ('', '' @ take 4 s) r"
  by (simp add: formatDate_iso [OF assms] suffix_def)

theorem formatDate_year_verbatim_witness:
  "is_iso_date ''0042-01-07'' \<and>
   (\<exists>r. formatDate (JString ''0042-01-07'') = Inr r \<and> suffix '', 0042'' r)"
proof -
  have a: "is_iso_date ''0042-01-07''"
    by (simp add: is_iso_date_def is_digit_def)
  show ?thesis
    using a formatDate_year_verbatim [OF a] by simp
qed

section \<open>Properties of the rendering\<close>

subsection \<open>Errors, substrings, lists of results\<close>

lemma and_then_Inr [simp]: "and_then (Inr x) f = f x"
  by (simp add: and_then_def)

lemma and_then_Inl [simp]: "and_then (Inl e) f = Inl e"
  by (simp add: and_then_def)

lemma and_then_eq_Inr:
  "and_then r f = Inr y \<longleftrightarrow> (\<exists>x. r = Inr x \<and> f x = Inr y)"
  by (cases r) simp_all

lemma str_includes_prefix: "prefix t s \<Longrightarrow> str_includes s t"
  by (cases s) auto

lemma str_includes_append: "str_includes (a @ t @ b) t"
  by (induction a) (simp_all add: str_includes_prefix)

lemma join_empty: "join [] parts = concat parts"
  by (induction "[] :: string" parts rule: join.induct) simp_all

lemma sequence_Inr:
  "sequence rs = Inr xs \<Longrightarrow> length xs = length rs \<and> (\<forall>i<length rs. rs ! i = Inr (xs ! i))"
proof (induction rs arbitrary: xs)
  case Nil
  then show ?case by simp
next
  case (Cons r rs)
  then obtain x ys where r: "r = Inr x" and ys: "sequence rs = Inr ys" and xs: "xs = x # ys"
    by (cases r; cases "sequence rs") auto
  from Cons.IH [OF ys] show ?case
    by (auto simp: r xs nth_Cons split: nat.splits)
qed

lemma sequence_all_Inr:
  "(\<forall>r\<in>set rs. \<exists>x. r = Inr x) \<Longrightarrow> \<exists>xs. sequence rs = Inr xs"
  by (induction rs) auto

lemma formatDate_total: "\<exists>d. formatDate v = Inr d"
proof (cases v)
  case (JString t)
  then show ?thesis
    by (cases "date_pattern t") (auto simp: formatDate_def)
qed (simp_all add: formatDate_def)

subsection \<open>The cards of the gallery\<close>

lemma renderCards_Inr:
  assumes "renderCards v items = Inr cards"
  shows "length cards = length items"
    and "i < length items \<Longrightarrow> renderCard v (items ! i) i = Inr (cards ! i)"
  using sequence_Inr [OF assms [unfolded renderCards_def]]
  by simp_all

lemma card_html_prefix:
  \<open>prefix (indent 3 @ ''<div class="gallery-item" data-index="'' @ index @ ''" tabindex="0"'')
     (card_html index title date visual)\<close>
  by (simp add: card_html_def)

lemma renderCard_Inr:
  assumes "renderCard v item i = Inr c"
  shows "\<exists>t d visual. c = card_html (show_nat i) t d visual"
  using assms
  by (auto simp: renderCard_def and_then_eq_Inr split: if_splits)

lemma renderCards_total:
  assumes "\<forall>i<length items. \<exists>c. renderCard v (items ! i) i = Inr c"
  shows "\<exists>cards. renderCards v items = Inr cards"
  unfolding renderCards_def
  by (rule sequence_all_Inr) (use assms in \<open>auto simp: set_zip\<close>)

text \<open>
  Rendering does not fail on an item that is not \<^verbatim>\<open>null\<close> and whose title and URLs can be
  printed, as they can when they are strings or absent; so it does not fail on a list of
  such items.
\<close>

lemma renderCard_total:
  assumes "\<not> nullish item"
    and "\<forall>k\<in>{''title'', ''url'', ''hdurl'', ''thumbnail_url''}. \<exists>s. toString (get_prop item k) = Inr s"
  shows "\<exists>c. renderCard v item i = Inr c"
proof -
  from assms(2) obtain t u h th where
    t: "toString (get_prop item ''title'') = Inr t" and
    u: "toString (get_prop item ''url'') = Inr u" and
    h: "toString (get_prop item ''hdurl'') = Inr h" and
    th: "toString (get_prop item ''thumbnail_url'') = Inr th"
    by auto
  obtain d where d: "formatDate (get_prop item ''date'') = Inr d"
    using formatDate_total by blast
  have "\<exists>visual. visualHTML v item = Inr visual"
    using t u h th by (simp add: visualHTML_def js_or_def Let_def)
  with assms(1) t d show ?thesis
    by (auto simp: renderCard_def)
qed

lemma renderCards_plain:
  assumes "\<forall>item\<in>set items. \<not> nullish item \<and>
      (\<forall>k\<in>{''title'', ''url'', ''hdurl'', ''thumbnail_url''}. \<exists>s. toString (get_prop item k) = Inr s)"
  shows "\<exists>cards. renderCards v items = Inr cards"
  by (rule renderCards_total) (use assms renderCard_total in \<open>simp\<close>)

lemma fetchAndRender_ok:
  assumes "ok res" "json res = Inr (JArray items)" "renderCards v items = Inr cards"
  shows "fetchAndRender wording v (Resolved res) p =
           p\<lparr>apodItems := items, gallery := concat cards\<rparr>"
  using assms
  by (simp add: fetchAndRender_def fetch_try_def renderGallery_def showLoading_def join_empty)

text \<open>
  C3. When the response has a non-success status, \<open>fetchAndRender\<close> leaves \<open>apodItems\<close>
  as it was and sets the gallery to the error markup, whose text contains the status
  code. Whatever was fetched, \<open>apodItems\<close> changes only when the response was a success
  and its body parsed to an array, and then it is that array.
\<close>

theorem fetch_failure_keeps_items:
  "(\<not> ok res \<longrightarrow>
      apodItems (fetchAndRender wording v (Resolved res) p) = apodItems p \<and>
      gallery (fetchAndRender wording v (Resolved res) p) =
        error_html (''Network error: '' @ show_nat (status res)) \<and>
      str_includes (gallery (fetchAndRender wording v (Resolved res) p)) (show_nat (status res))) \<and>
   (apodItems (fetchAndRender wording v result p) \<noteq> apodItems p \<longrightarrow>
      (\<exists>r xs. result = Resolved r \<and> ok r \<and> json r = Inr (JArray xs) \<and>
         apodItems (fetchAndRender wording v result p) = xs))"
proof (intro conjI impI)
  assume failed: "\<not> ok res"
  then have g: "fetchAndRender wording v (Resolved res) p =
      p\<lparr>gallery := error_html (''Network error: '' @ show_nat (status res))\<rparr>"
    by (simp add: fetchAndRender_def fetch_try_def showLoading_def)
  show "apodItems (fetchAndRender wording v (Resolved res) p) = apodItems p"
    by (simp add: g)
  show "gallery (fetchAndRender wording v (Resolved res) p) =
      error_html (''Network error: '' @ show_nat (status res))"
    by (simp add: g)
  have "str_includes (error_html (''Network error: '' @ show_nat (status res)))
      (show_nat (status res))"
    unfolding error_html_def append_assoc [symmetric]
    by (rule str_includes_append [of _ _ "_ @ _ @ _ @ _", unfolded append_assoc [symmetric]])
  then show "str_includes (gallery (fetchAndRender wording v (Resolved res) p))
      (show_nat (status res))"
    by (simp add: g)
next
  assume changed: "apodItems (fetchAndRender wording v result p) \<noteq> apodItems p"
  show "\<exists>r xs. result = Resolved r \<and> ok r \<and> json r = Inr (JArray xs) \<and>
      apodItems (fetchAndRender wording v result p) = xs"
  proof (cases result)
    case (Rejected m)
    with changed show ?thesis
      by (simp add: fetchAndRender_def fetch_try_def showLoading_def)
  next
    case (Resolved r)
    show ?thesis
    proof (cases "ok r")
      case False
      with changed Resolved show ?thesis
        by (simp add: fetchAndRender_def fetch_try_def showLoading_def)
    next
      case True
      show ?thesis
      proof (cases "json r")
        case (Inl m)
        with changed Resolved True show ?thesis
          by (simp add: fetchAndRender_def fetch_try_def showLoading_def)
      next
        case (Inr data)
        show ?thesis
        proof (cases data)
          case (JArray xs)
          have "apodItems (fetchAndRender wording v result p) = xs"
            by (cases "renderCards v xs")
               (simp_all add: Resolved True Inr JArray fetchAndRender_def fetch_try_def
                  renderGallery_def showLoading_def)
          with Resolved True Inr JArray show ?thesis
            by simp
        qed (use changed Resolved True Inr in
              \<open>simp_all add: fetchAndRender_def fetch_try_def showLoading_def\<close>)
      qed
    qed
  qed
qed

theorem fetch_failure_keeps_items_witness:
  "\<not> ok \<lparr>ok = False, status = 500, json = Inl ''''\<rparr> \<and>
   apodItems (fetchAndRender (\<lambda>k. ''TypeError'') Script (Resolved \<lparr>ok = False, status = 500, json = Inl ''''\<rparr>)
     \<lparr>apodItems = [JObject []], gallery = '''', modalOverlay = None, otherInner = None\<rparr>) = [JObject []] \<and>
   str_includes
     (gallery (fetchAndRender (\<lambda>k. ''TypeError'') Script (Resolved \<lparr>ok = False, status = 500, json = Inl ''''\<rparr>)
        \<lparr>apodItems = [JObject []], gallery = '''', modalOverlay = None, otherInner = None\<rparr>))
     ''500''"
proof -
  let ?res = "\<lparr>ok = False, status = 500, json = Inl ''''\<rparr>"
  let ?p = "\<lparr>apodItems = [JObject []], gallery = '''', modalOverlay = None, otherInner = None\<rparr>"
  have failed: "\<not> ok ?res"
    by simp
  from fetch_failure_keeps_items [of ?res "\<lambda>k. ''TypeError''" Script ?p "Resolved ?res"] failed
  have "apodItems (fetchAndRender (\<lambda>k. ''TypeError'') Script (Resolved ?res) ?p) = apodItems ?p"
    and "str_includes (gallery (fetchAndRender (\<lambda>k. ''TypeError'') Script (Resolved ?res) ?p))
           (show_nat (status ?res))"
    by blast+
  moreover have "show_nat (status ?res) = ''500''"
    by (simp add: show_nat.simps digit_char_def)
  ultimately show ?thesis
    using failed by simp
qed

text \<open>
  C5. When the fetch succeeds with a list of \<open>n\<close> items and every item renders, the
  gallery holds exactly \<open>n\<close> cards, one per item, in the order of the list; the card of
  the item at position \<open>i\<close> is the one \<open>renderCard\<close> builds for it with index \<open>i\<close>, and
  it opens with the \<^verbatim>\<open>data-index\<close> attribute \<open>i\<close>. The list is stored as \<open>apodItems\<close>.
\<close>

theorem fetch_renders_one_card_per_item:
  assumes "ok res" and "json res = Inr (JArray items)" and "renderCards v items = Inr cards"
  shows \<open>gallery (fetchAndRender wording v (Resolved res) p) = concat cards \<and>
         apodItems (fetchAndRender wording v (Resolved res) p) = items \<and>
         length cards = length items \<and>
         (\<forall>i<length items.
            renderCard v (items ! i) i = Inr (cards ! i) \<and>
            prefix (indent 3 @ ''<div class="gallery-item" data-index="'' @ show_nat i @
                      ''" tabindex="0"'')
              (cards ! i))\<close>
proof -
  have "prefix (indent 3 @ ''<div class=\"gallery-item\" data-index=\"'' @ show_nat i @
                  ''\" tabindex=\"0\"'') (cards ! i)"
    if "i < length items" for i
  proof -
    from renderCards_Inr(2) [OF assms(3) that] obtain t d visual
      where "cards ! i = card_html (show_nat i) t d visual"
      using renderCard_Inr by blast
    then show ?thesis
      by (simp only: card_html_prefix)
  qed
  then show ?thesis
    by (simp add: fetchAndRender_ok [OF assms] renderCards_Inr [OF assms(3)])
qed

theorem fetch_renders_one_card_per_item_witness:
  \<open>ok \<lparr>ok = True, status = 200,
        json = Inr (JArray [JObject [(''title'', JString ''A'')], JObject [(''title'', JString ''B'')],
                            JObject [(''title'', JString ''C'')]])\<rparr> \<and>
   renderCards Script
     [JObject [(''title'', JString ''A'')], JObject [(''title'', JString ''B'')],
      JObject [(''title'', JString ''C'')]] =
     Inr [card_html ''0'' ''A'' '''' unsupported_placeholder,
          card_html ''1'' ''B'' '''' unsupported_placeholder,
          card_html ''2'' ''C'' '''' unsupported_placeholder] \<and>
   gallery (fetchAndRender (\<lambda>k. ''TypeError'') Script
     (Resolved \<lparr>ok = True, status = 200,
        json = Inr (JArray [JObject [(''title'', JString ''A'')], JObject [(''title'', JString ''B'')],
                            JObject [(''title'', JString ''C'')]])\<rparr>)
     \<lparr>apodItems = [], gallery = '''', modalOverlay = None, otherInner = None\<rparr>) =
     card_html ''0'' ''A'' '''' unsupported_placeholder @
     card_html ''1'' ''B'' '''' unsupported_placeholder @
     card_html ''2'' ''C'' '''' unsupported_placeholder\<close>
proof -
  let ?items = "[JObject [(''title'', JString ''A'')], JObject [(''title'', JString ''B'')],
                 JObject [(''title'', JString ''C'')]]"
  let ?res = "\<lparr>ok = True, status = 200, json = Inr (JArray ?items)\<rparr>"
  let ?cards = "[card_html ''0'' ''A'' '''' unsupported_placeholder,
                 card_html ''1'' ''B'' '''' unsupported_placeholder,
                 card_html ''2'' ''C'' '''' unsupported_placeholder]"
  have 1: "ok ?res" and 2: "json ?res = Inr (JArray ?items)"
    by simp_all
  have 3: "renderCards Script ?items = Inr ?cards"
    by (simp add: renderCards_def renderCard_def visualHTML_def formatDate_def
        show_nat.simps digit_char_def)
  from fetch_renders_one_card_per_item [OF 1 2 3, of "\<lambda>k. ''TypeError''"
      "\<lparr>apodItems = [], gallery = '''', modalOverlay = None, otherInner = None\<rparr>"]
  show ?thesis
    using 1 3 by simp
qed

subsection \<open>The image of an item\<close>



subsection \<open>An unknown media type\<close>







subsection \<open>The link of an embedded video\<close>











subsection \<open>Selecting a card\<close>

lemma show_nat_digits: "list_all is_digit (show_nat n)"
proof (induction n rule: show_nat.induct)
  case (1 n)
  show ?case
  proof (cases "n < 10")
    case True
    then show ?thesis
      by (subst show_nat.simps) (simp add: is_digit_char)
  next
    case False
    with 1 show ?thesis
      by (subst show_nat.simps) (simp add: is_digit_char)
  qed
qed

lemma show_nat_not_Nil: "show_nat n \<noteq> []"
  by (subst show_nat.simps) simp

lemma digits_value_snoc: "digits_value (ds @ [c]) = 10 * digits_value ds + digit_value c"
  by (simp add: digits_value_def)

lemma digits_value_show_nat: "digits_value (show_nat n) = n"
proof (induction n rule: show_nat.induct)
  case (1 n)
  show ?case
  proof (cases "n < 10")
    case True
    then show ?thesis
      by (subst show_nat.simps) (simp add: digits_value_def digit_value_char)
  next
    case False
    with 1 have "digits_value (show_nat (n div 10)) = n div 10"
      by simp
    with False show ?thesis
      by (subst show_nat.simps) (simp add: digits_value_snoc digit_value_char)
  qed
qed

lemma parseInt_show_nat: "parseInt (show_nat n) = Some (int n)"
proof -
  obtain c cs where s: "show_nat n = c # cs"
    using show_nat_not_Nil by (cases "show_nat n") auto
  with show_nat_digits [of n] have c: "is_digit c" and all: "list_all is_digit (c # cs)"
    by simp_all
  from c have sign: "c \<noteq> CHR ''-''" "c \<noteq> CHR ''+''"
    by (auto simp: is_digit_def)
  from all have "takeWhile is_digit (c # cs) = c # cs"
    by (simp add: list_all_iff)
  moreover have "digits_value (c # cs) = n"
    using digits_value_show_nat [of n] by (simp add: s)
  ultimately show ?thesis
    using sign by (simp add: parseInt_def s trim_start_digit [OF c] Let_def)
qed

lemma item_at_index: "item_at items (Some (int i)) = (if i < length items then items ! i else JUndefined)"
  by (simp add: item_at_def)

text \<open>
  C8. A click, or the key Enter, on a card whose \<^verbatim>\<open>data-index\<close> is the number \<open>i\<close>: when
  \<open>i\<close> is within \<open>apodItems\<close> and the element there is truthy (as every object is), the
  listener does what \<open>openModal\<close> does with that element; when \<open>i\<close> is beyond the list,
  the listener changes nothing and throws nothing. It changes and throws nothing either
  whenever the attribute (absent, not a number, negative) selects no element.
\<close>

theorem selection_dispatch:
  "(i < length (apodItems p) \<and> truthy (apodItems p ! i) \<longrightarrow>
      onGalleryClick p found (Some (Some (show_nat i))) = openModal p found (apodItems p ! i) \<and>
      onGalleryKeydown p found ''Enter'' (Some (Some (show_nat i))) =
        openModal p found (apodItems p ! i)) \<and>
   (length (apodItems p) \<le> i \<longrightarrow>
      onGalleryClick p found (Some (Some (show_nat i))) = (None, p) \<and>
      onGalleryKeydown p found ''Enter'' (Some (Some (show_nat i))) = (None, p)) \<and>
   (item_at (apodItems p) (parseInt (attribute_text a)) = JUndefined \<longrightarrow>
      onGalleryClick p found (Some a) = (None, p) \<and>
      onGalleryKeydown p found ''Enter'' (Some a) = (None, p)) \<and>
   truthy (JObject kvs)"
  by (simp add: onGalleryClick_def onGalleryKeydown_def attribute_text_def parseInt_show_nat
      item_at_index)

theorem selection_dispatch_witness:
  "onGalleryClick \<lparr>apodItems = [JObject [], JObject [(''title'', JString ''B'')]], gallery = '''',
       modalOverlay = None, otherInner = None\<rparr> OwnInner (Some (Some ''1'')) =
     openModal \<lparr>apodItems = [JObject [], JObject [(''title'', JString ''B'')]], gallery = '''',
       modalOverlay = None, otherInner = None\<rparr> OwnInner (JObject [(''title'', JString ''B'')]) \<and>
   onGalleryKeydown \<lparr>apodItems = [JObject [], JObject [(''title'', JString ''B'')]], gallery = '''',
       modalOverlay = None, otherInner = None\<rparr> OwnInner ''Enter'' (Some (Some ''2'')) =
     (None, \<lparr>apodItems = [JObject [], JObject [(''title'', JString ''B'')]], gallery = '''',
       modalOverlay = None, otherInner = None\<rparr>) \<and>
   onGalleryClick \<lparr>apodItems = [JObject [], JObject [(''title'', JString ''B'')]], gallery = '''',
       modalOverlay = None, otherInner = None\<rparr> OwnInner (Some None) =
     (None, \<lparr>apodItems = [JObject [], JObject [(''title'', JString ''B'')]], gallery = '''',
       modalOverlay = None, otherInner = None\<rparr>)"
proof -
  let ?p = "\<lparr>apodItems = [JObject [], JObject [(''title'', JString ''B'')]], gallery = '''',
             modalOverlay = None, otherInner = None\<rparr>"
  have one: "show_nat (Suc 0) = ''1''" and two: "show_nat 2 = ''2''"
    by (simp_all add: show_nat.simps digit_char_def)
  have absent: "item_at (apodItems ?p) (parseInt (attribute_text None)) = JUndefined"
    by (simp add: attribute_text_def parseInt_def trim_start.simps leading_white_space_def
        white_space_def is_digit_def item_at_def)
  from selection_dispatch [of "Suc 0" ?p OwnInner None]
    selection_dispatch [of 2 ?p OwnInner None] absent
  show ?thesis
    by (simp add: one two)
qed

subsection \<open>A missing title, a missing explanation\<close>



end
